theory Spec2Isabelle
  imports Main "HOL-Library.Multiset"
begin

section \<open>The \<open>permessage-bzip2\<close> WebSocket extension of \<open>autobahn/compress_bzip2.py\<close>\<close>

text \<open>
  A shallow embedding of the module \<open>compress_bzip2.py\<close>: the three negotiation classes
  \<open>PerMessageBzip2Offer\<close>, \<open>PerMessageBzip2Accept\<close> and \<open>PerMessageBzip2Response\<close>, and
  the processor \<open>PerMessageBzip2\<close>. Every \<open>raise\<close> of the source is a branch that returns
  \<open>Inl\<close> of an error; a method that mutates \<open>self\<close> takes the object and returns the
  updated one.
\<close>

subsection \<open>Values and errors\<close>

text \<open>
  The values of an extension parameter, as the header parser hands them over: a string,
  or the boolean \<open>True\<close> for a parameter that came without \<open>=value\<close>.
\<close>

datatype pval = PBool bool | PStr string

text \<open>
  The source raises a plain \<open>Exception\<close> with a formatted message everywhere; the
  constructors below name the message of each \<open>raise\<close> and carry what the message
  interpolates.
  \<^item> \<open>DuplicateParameterError p\<close>: "multiple occurence of extension parameter 'p' ..."
  \<^item> \<open>InvalidParameterValueError val p\<close>: "illegal extension parameter value 'val' for
    parameter 'p' ..."
  \<^item> \<open>UnknownParameterError p\<close>: "illegal extension parameter 'p' ..."
  \<^item> \<open>ConstructionError n\<close>: "invalid value n for requestMaxCompressLevel - permissible
    values ..."
  \<^item> \<open>UnsupportedFeatureError n\<close>: "invalid value n for requestMaxCompressLevel - feature
    unsupported by client"
  \<^item> \<open>IndexError\<close>: Python's own error of \<open>params[p][0]\<close> on an empty list
  \<^item> \<open>ValueError\<close>: Python's own error of \<open>int(val)\<close> on a string that is no number
  \<^item> \<open>AttributeError\<close>: Python's own error of a method call on \<open>None\<close>
  \<^item> \<open>CodecError\<close>: whatever the \<open>bz2\<close> library raises
\<close>

datatype error =
    DuplicateParameterError string
  | InvalidParameterValueError pval string
  | UnknownParameterError string
  | ConstructionError int
  | UnsupportedFeatureError int
  | IndexError
  | ValueError
  | AttributeError
  | CodecError

text \<open>
  The argument \<open>params\<close> of the two \<open>parse\<close> methods is a Python dict from parameter
  name to the list of its values. The loops \<open>for p in params\<close> visit the keys in the
  dict's iteration order and stop at the first \<open>raise\<close>, so the model is the list of
  (key, values) pairs in iteration order.
\<close>

type_synonym params = "(string \<times> pval list) list"

subsection \<open>Shared constants (\<open>PerMessageBzip2Mixin\<close>)\<close>

definition EXTENSION_NAME :: string where
  "EXTENSION_NAME = ''permessage-bzip2''"

definition COMPRESS_LEVEL_PERMISSIBLE_VALUES :: "int list" where
  "COMPRESS_LEVEL_PERMISSIBLE_VALUES = [1, 2, 3, 4, 5, 6, 7, 8, 9]"

text \<open>The literal list \<open>['1', '2', '3', '4', '5', '6', '7', '8', '9']\<close> of the parsers.\<close>

definition level_literals :: "pval list" where
  "level_literals = [PStr ''1'', PStr ''2'', PStr ''3'', PStr ''4'', PStr ''5'',
                     PStr ''6'', PStr ''7'', PStr ''8'', PStr ''9'']"

subsection \<open>Python's \<open>int(val)\<close> and \<open>"%d" % n\<close>\<close>

definition digit_val :: "char \<Rightarrow> int option" where
  "digit_val c = map_of (zip ''0123456789'' [0, 1, 2, 3, 4, 5, 6, 7, 8, 9]) c"

fun digits_val :: "int \<Rightarrow> string \<Rightarrow> int option" where
  "digits_val acc [] = Some acc"
| "digits_val acc (c # cs) =
     (case digit_val c of None \<Rightarrow> None | Some d \<Rightarrow> digits_val (10 * acc + d) cs)"

text \<open>
  \<open>int(val)\<close>: the source calls it only on a member of \<open>level_literals\<close>. The model reads
  a non-empty string of decimal digits and raises \<open>ValueError\<close> on every other string
  (signs and surrounding blanks, which Python accepts too, never reach the call);
  \<open>int(True)\<close> is 1 and \<open>int(False)\<close> is 0.
\<close>

definition py_int :: "pval \<Rightarrow> error + int" where
  "py_int v =
     (case v of
        PBool b \<Rightarrow> Inr (if b then 1 else 0)
      | PStr s \<Rightarrow>
          (if s = [] then Inl ValueError
           else case digits_val 0 s of None \<Rightarrow> Inl ValueError | Some n \<Rightarrow> Inr n))"

definition digit_char :: "nat \<Rightarrow> char" where
  "digit_char d = ''0123456789'' ! (d mod 10)"

function dec_digits :: "nat \<Rightarrow> string" where
  "dec_digits n = (if n < 10 then [digit_char n] else dec_digits (n div 10) @ [digit_char n])"
  by pat_completeness auto
termination
  by (relation "measure id") auto

declare dec_digits.simps [simp del]

text \<open>\<open>"%d" % n\<close> for an integer \<open>n\<close>.\<close>

definition fmt_d :: "int \<Rightarrow> string" where
  "fmt_d n = (if n < 0 then CHR ''-'' # dec_digits (nat (- n)) else dec_digits (nat n))"

subsection \<open>\<open>PerMessageBzip2Offer\<close>\<close>

record PerMessageBzip2Offer =
  acceptMaxCompressLevel :: bool
  requestMaxCompressLevel :: int

text \<open>
  \<open>PerMessageBzip2Offer.__init__\<close>. The check \<open>type(acceptMaxCompressLevel) != bool\<close> is
  discharged by the type of the first argument. A caller that leaves an argument out
  passes the default (\<open>True\<close> and \<open>0\<close>).
\<close>

definition Offer_init :: "bool \<Rightarrow> int \<Rightarrow> error + PerMessageBzip2Offer" where
  "Offer_init acceptMax requestMax =
     (if requestMax \<noteq> 0 \<and> requestMax \<notin> set COMPRESS_LEVEL_PERMISSIBLE_VALUES
      then Inl (ConstructionError requestMax)
      else Inr \<lparr>acceptMaxCompressLevel = acceptMax, requestMaxCompressLevel = requestMax\<rparr>)"

text \<open>
  The loop of \<open>PerMessageBzip2Offer.parse\<close> over the remaining keys; the two arguments
  after the list are the local variables \<open>acceptMaxCompressLevel\<close> and
  \<open>requestMaxCompressLevel\<close>.
\<close>

fun Offer_parse_loop :: "params \<Rightarrow> bool \<Rightarrow> int \<Rightarrow> error + (bool \<times> int)" where
  "Offer_parse_loop [] acceptMax requestMax = Inr (acceptMax, requestMax)"
| "Offer_parse_loop ((p, vals) # rest) acceptMax requestMax =
     (if length vals > 1 then Inl (DuplicateParameterError p)
      else case vals of
        [] \<Rightarrow> Inl IndexError
      | val # _ \<Rightarrow>
          if p = ''c2s_max_compress_level'' then
            (if val \<noteq> PBool True then Inl (InvalidParameterValueError val p)
             else Offer_parse_loop rest True requestMax)
          else if p = ''s2c_max_compress_level'' then
            (if val \<notin> set level_literals then Inl (InvalidParameterValueError val p)
             else case py_int val of
               Inl e \<Rightarrow> Inl e
             | Inr n \<Rightarrow> Offer_parse_loop rest acceptMax n)
          else Inl (UnknownParameterError p))"

definition Offer_parse :: "params \<Rightarrow> error + PerMessageBzip2Offer" where
  "Offer_parse params =
     (case Offer_parse_loop params False 0 of
        Inl e \<Rightarrow> Inl e
      | Inr (acceptMax, requestMax) \<Rightarrow> Offer_init acceptMax requestMax)"

definition Offer_getExtensionString :: "PerMessageBzip2Offer \<Rightarrow> string" where
  "Offer_getExtensionString self =
     (let pmceString = EXTENSION_NAME;
          pmceString = (if acceptMaxCompressLevel self
                        then pmceString @ ''; c2s_max_compress_level'' else pmceString);
          pmceString = (if requestMaxCompressLevel self \<noteq> 0
                        then pmceString @ ''; s2c_max_compress_level=''
                               @ fmt_d (requestMaxCompressLevel self)
                        else pmceString)
      in pmceString)"

subsection \<open>\<open>PerMessageBzip2Accept\<close>\<close>

text \<open>
  The field \<open>requestMaxCompressLevel\<close> of the accept is \<open>accept_requestMaxCompressLevel\<close>
  here, the offer's field having the plain name.
\<close>

record PerMessageBzip2Accept =
  offer :: PerMessageBzip2Offer
  accept_requestMaxCompressLevel :: int

text \<open>
  \<open>PerMessageBzip2Accept.__init__\<close>. The check \<open>isinstance(offer, PerMessageBzip2Offer)\<close>
  is discharged by the type of the first argument. A caller that leaves the level out
  passes the default \<open>0\<close>.
\<close>

definition Accept_init :: "PerMessageBzip2Offer \<Rightarrow> int \<Rightarrow> error + PerMessageBzip2Accept" where
  "Accept_init off requestMax =
     (if requestMax \<noteq> 0 \<and> requestMax \<notin> set COMPRESS_LEVEL_PERMISSIBLE_VALUES
      then Inl (ConstructionError requestMax)
      else if requestMax \<noteq> 0 \<and> \<not> acceptMaxCompressLevel off
      then Inl (UnsupportedFeatureError requestMax)
      else Inr \<lparr>offer = off, accept_requestMaxCompressLevel = requestMax\<rparr>)"

definition Accept_getExtensionString :: "PerMessageBzip2Accept \<Rightarrow> string" where
  "Accept_getExtensionString self =
     (let pmceString = EXTENSION_NAME;
          pmceString = (if requestMaxCompressLevel (offer self) \<noteq> 0
                        then pmceString @ ''; s2c_max_compress_level=''
                               @ fmt_d (requestMaxCompressLevel (offer self))
                        else pmceString);
          pmceString = (if accept_requestMaxCompressLevel self \<noteq> 0
                        then pmceString @ ''; c2s_max_compress_level=''
                               @ fmt_d (accept_requestMaxCompressLevel self)
                        else pmceString)
      in pmceString)"

subsection \<open>\<open>PerMessageBzip2Response\<close>\<close>

record PerMessageBzip2Response =
  c2s_max_compress_level :: int
  s2c_max_compress_level :: int

text \<open>\<open>PerMessageBzip2Response.__init__\<close>: two assignments, no check.\<close>

definition Response_init :: "int \<Rightarrow> int \<Rightarrow> error + PerMessageBzip2Response" where
  "Response_init c2s s2c = Inr \<lparr>c2s_max_compress_level = c2s, s2c_max_compress_level = s2c\<rparr>"

text \<open>
  The loop of \<open>PerMessageBzip2Response.parse\<close>; the two arguments after the list are the
  local variables \<open>c2s_max_compress_level\<close> and \<open>s2c_max_compress_level\<close>.
\<close>

fun Response_parse_loop :: "params \<Rightarrow> int \<Rightarrow> int \<Rightarrow> error + (int \<times> int)" where
  "Response_parse_loop [] c2s s2c = Inr (c2s, s2c)"
| "Response_parse_loop ((p, vals) # rest) c2s s2c =
     (if length vals > 1 then Inl (DuplicateParameterError p)
      else case vals of
        [] \<Rightarrow> Inl IndexError
      | val # _ \<Rightarrow>
          if p = ''c2s_max_compress_level'' then
            (if val \<notin> set level_literals then Inl (InvalidParameterValueError val p)
             else case py_int val of
               Inl e \<Rightarrow> Inl e
             | Inr n \<Rightarrow> Response_parse_loop rest n s2c)
          else if p = ''s2c_max_compress_level'' then
            (if val \<notin> set level_literals then Inl (InvalidParameterValueError val p)
             else case py_int val of
               Inl e \<Rightarrow> Inl e
             | Inr n \<Rightarrow> Response_parse_loop rest c2s n)
          else Inl (UnknownParameterError p))"

definition Response_parse :: "params \<Rightarrow> error + PerMessageBzip2Response" where
  "Response_parse params =
     (case Response_parse_loop params 0 0 of
        Inl e \<Rightarrow> Inl e
      | Inr (c2s, s2c) \<Rightarrow> Response_init c2s s2c)"

subsection \<open>From the extension string to the parameter dict\<close>

text \<open>
  Modelled from the spec: the header parser
  \<open>autobahn.websocket.WebSocketProtocol._parseExtensionsHeader\<close>, which the docstrings of
  the two \<open>parse\<close> methods name as the producer of \<open>params\<close> and which is not part of
  this module. The spec gives the extension string as
  \<open>extension = "permessage-bzip2" *( ";" SP param )\<close> with \<open>param\<close> either \<open>key\<close> or
  \<open>key "=" value\<close>, and the input of the parse operations as "a mapping from parameter
  name to an ordered sequence of value-strings (absent value for flags represented as
  the boolean-true sentinel)", where "multiple occurrences of the same name on the wire
  collapse into one sequence". The keys come out in the order of their first occurrence.
\<close>

fun split_at :: "char \<Rightarrow> string \<Rightarrow> string list" where
  "split_at sep [] = [[]]"
| "split_at sep (c # cs) =
     (if c = sep then [] # split_at sep cs
      else case split_at sep cs of
        [] \<Rightarrow> [[c]]
      | w # ws \<Rightarrow> (c # w) # ws)"

definition strip :: "string \<Rightarrow> string" where
  "strip s = rev (dropWhile (\<lambda>c. c = CHR '' '') (rev (dropWhile (\<lambda>c. c = CHR '' '') s)))"

definition param_token :: "string \<Rightarrow> string \<times> pval" where
  "param_token tok =
     (let key = takeWhile (\<lambda>c. c \<noteq> CHR ''='') tok;
          rest = dropWhile (\<lambda>c. c \<noteq> CHR ''='') tok
      in case rest of
        [] \<Rightarrow> (strip key, PBool True)
      | _ # val \<Rightarrow> (strip key, PStr (strip val)))"

fun add_param :: "params \<Rightarrow> string \<times> pval \<Rightarrow> params" where
  "add_param [] (k, v) = [(k, [v])]"
| "add_param ((k', vs) # ps) (k, v) =
     (if k' = k then (k', vs @ [v]) # ps else (k', vs) # add_param ps (k, v))"

definition header_params :: "string \<Rightarrow> params" where
  "header_params ext =
     (case split_at CHR '';'' ext of
        [] \<Rightarrow> []
      | name # toks \<Rightarrow> foldl add_param [] (map param_token toks))"

subsection \<open>The \<open>bz2\<close> library\<close>

text \<open>
  The module uses Python's \<open>bz2\<close> library: \<open>bz2.BZ2Compressor(level)\<close> with its methods
  \<open>compress(data)\<close> and \<open>flush()\<close>, and \<open>bz2.BZ2Decompressor()\<close> with its method
  \<open>decompress(data)\<close>. The library is a parameter of the model: \<open>'c\<close> is the state of a
  compressor object, \<open>'d\<close> the state of a decompressor object, a method that changes its
  object returns the new state beside its output, and every call that can raise returns
  a sum. Byte strings are Python 2 \<open>str\<close> values.
\<close>

type_synonym bytes = string

record ('c, 'd) bz2 =
  BZ2Compressor :: "int \<Rightarrow> error + 'c"
  BZ2Compressor_compress :: "'c \<Rightarrow> bytes \<Rightarrow> error + (bytes \<times> 'c)"
  BZ2Compressor_flush :: "'c \<Rightarrow> error + bytes"
  BZ2Decompressor :: "'d"
  BZ2Decompressor_decompress :: "'d \<Rightarrow> bytes \<Rightarrow> error + (bytes \<times> 'd)"

subsection \<open>\<open>PerMessageBzip2\<close>\<close>

definition DEFAULT_COMPRESS_LEVEL :: int where
  "DEFAULT_COMPRESS_LEVEL = 9"

text \<open>
  The fields \<open>_isServer\<close>, \<open>_compressor\<close>, \<open>_decompressor\<close>, \<open>s2c_max_compress_level\<close> and
  \<open>c2s_max_compress_level\<close> of the processor; the last two carry the prefix \<open>pmce\<close>, the
  response's fields having the plain names. \<open>None\<close> in a codec field is Python's \<open>None\<close>.
\<close>

record ('c, 'd) PerMessageBzip2 =
  isServer :: bool
  compressor :: "'c option"
  decompressor :: "'d option"
  pmce_s2c_max_compress_level :: int
  pmce_c2s_max_compress_level :: int

definition PerMessageBzip2_init :: "bool \<Rightarrow> int \<Rightarrow> int \<Rightarrow> ('c, 'd) PerMessageBzip2" where
  "PerMessageBzip2_init isSrv s2c c2s =
     \<lparr>isServer = isSrv,
      compressor = None,
      decompressor = None,
      pmce_s2c_max_compress_level = (if s2c \<noteq> 0 then s2c else DEFAULT_COMPRESS_LEVEL),
      pmce_c2s_max_compress_level = (if c2s \<noteq> 0 then c2s else DEFAULT_COMPRESS_LEVEL)\<rparr>"

definition createFromResponse :: "bool \<Rightarrow> PerMessageBzip2Response \<Rightarrow> ('c, 'd) PerMessageBzip2" where
  "createFromResponse isSrv response =
     PerMessageBzip2_init isSrv (s2c_max_compress_level response)
                                (c2s_max_compress_level response)"

definition createFromAccept :: "bool \<Rightarrow> PerMessageBzip2Accept \<Rightarrow> ('c, 'd) PerMessageBzip2" where
  "createFromAccept isSrv accept =
     PerMessageBzip2_init isSrv (requestMaxCompressLevel (offer accept))
                                (accept_requestMaxCompressLevel accept)"

definition startCompressMessage ::
  "('c, 'd) bz2 \<Rightarrow> ('c, 'd) PerMessageBzip2 \<Rightarrow> error + ('c, 'd) PerMessageBzip2" where
  "startCompressMessage bz self =
     (if isServer self then
        (if compressor self = None then
           (case BZ2Compressor bz (pmce_s2c_max_compress_level self) of
              Inl e \<Rightarrow> Inl e
            | Inr c \<Rightarrow> Inr (self\<lparr>compressor := Some c\<rparr>))
         else Inr self)
      else
        (if compressor self = None then
           (case BZ2Compressor bz (pmce_c2s_max_compress_level self) of
              Inl e \<Rightarrow> Inl e
            | Inr c \<Rightarrow> Inr (self\<lparr>compressor := Some c\<rparr>))
         else Inr self))"

definition compressMessageData ::
  "('c, 'd) bz2 \<Rightarrow> ('c, 'd) PerMessageBzip2 \<Rightarrow> bytes \<Rightarrow> error + (bytes \<times> ('c, 'd) PerMessageBzip2)" where
  "compressMessageData bz self data =
     (case compressor self of
        None \<Rightarrow> Inl AttributeError
      | Some c \<Rightarrow>
          (case BZ2Compressor_compress bz c data of
             Inl e \<Rightarrow> Inl e
           | Inr (out, c') \<Rightarrow> Inr (out, self\<lparr>compressor := Some c'\<rparr>)))"

text \<open>
  \<open>endCompressMessage\<close>: \<open>self._compressor.flush()\<close> raises \<open>AttributeError\<close> when the field
  is \<open>None\<close>; an exception of \<open>flush\<close> leaves the method before the assignment.
\<close>

definition endCompressMessage ::
  "('c, 'd) bz2 \<Rightarrow> ('c, 'd) PerMessageBzip2 \<Rightarrow> error + (bytes \<times> ('c, 'd) PerMessageBzip2)" where
  "endCompressMessage bz self =
     (case compressor self of
        None \<Rightarrow> Inl AttributeError
      | Some c \<Rightarrow>
          (case BZ2Compressor_flush bz c of
             Inl e \<Rightarrow> Inl e
           | Inr data \<Rightarrow> Inr (data, self\<lparr>compressor := None\<rparr>)))"

definition startDecompressMessage ::
  "('c, 'd) bz2 \<Rightarrow> ('c, 'd) PerMessageBzip2 \<Rightarrow> ('c, 'd) PerMessageBzip2" where
  "startDecompressMessage bz self =
     (if decompressor self = None then self\<lparr>decompressor := Some (BZ2Decompressor bz)\<rparr>
      else self)"

definition decompressMessageData ::
  "('c, 'd) bz2 \<Rightarrow> ('c, 'd) PerMessageBzip2 \<Rightarrow> bytes \<Rightarrow> error + (bytes \<times> ('c, 'd) PerMessageBzip2)" where
  "decompressMessageData bz self data =
     (case decompressor self of
        None \<Rightarrow> Inl AttributeError
      | Some d \<Rightarrow>
          (case BZ2Decompressor_decompress bz d data of
             Inl e \<Rightarrow> Inl e
           | Inr (out, d') \<Rightarrow> Inr (out, self\<lparr>decompressor := Some d'\<rparr>)))"

definition endDecompressMessage :: "('c, 'd) PerMessageBzip2 \<Rightarrow> ('c, 'd) PerMessageBzip2" where
  "endDecompressMessage self = self\<lparr>decompressor := None\<rparr>"

subsection \<open>A stand-in library for the examples\<close>

text \<open>
  A library whose compressor keeps its level and the bytes it was fed and hands them out
  on \<open>flush\<close>; like \<open>bz2.BZ2Compressor\<close> it refuses a level outside 1 to 9. It only
  serves to run the processor on concrete inputs.
\<close>

definition store_bz2 :: "(int \<times> bytes, unit) bz2" where
  "store_bz2 =
     \<lparr>BZ2Compressor = (\<lambda>level. if 1 \<le> level \<and> level \<le> 9 then Inr (level, []) else Inl CodecError),
      BZ2Compressor_compress = (\<lambda>c data. Inr ([], (fst c, snd c @ data))),
      BZ2Compressor_flush = (\<lambda>c. Inr (snd c)),
      BZ2Decompressor = (),
      BZ2Decompressor_decompress = (\<lambda>d data. Inr (data, d))\<rparr>"

section \<open>Properties\<close>

subsection \<open>Levels on the wire\<close>

lemma fmt_d_digit:
  "fmt_d 0 = ''0''" "fmt_d 1 = ''1''" "fmt_d 2 = ''2''" "fmt_d 3 = ''3''" "fmt_d 4 = ''4''"
  "fmt_d 5 = ''5''" "fmt_d 6 = ''6''" "fmt_d 7 = ''7''" "fmt_d 8 = ''8''" "fmt_d 9 = ''9''"
  by (simp_all add: fmt_d_def dec_digits.simps digit_char_def)

lemma level_cases:
  "1 \<le> (n::int) \<Longrightarrow> n \<le> 9 \<Longrightarrow> n \<in> {1, 2, 3, 4, 5, 6, 7, 8, 9}"
  by simp arith

lemma py_int_literal:
  "py_int (PStr ''1'') = Inr 1" "py_int (PStr ''2'') = Inr 2" "py_int (PStr ''3'') = Inr 3"
  "py_int (PStr ''4'') = Inr 4" "py_int (PStr ''5'') = Inr 5" "py_int (PStr ''6'') = Inr 6"
  "py_int (PStr ''7'') = Inr 7" "py_int (PStr ''8'') = Inr 8" "py_int (PStr ''9'') = Inr 9"
  by (simp_all add: py_int_def digit_val_def)

lemma level_literal_iff:
  "PStr s \<in> set level_literals \<longleftrightarrow>
     s \<in> (\<lambda>c. [c]) ` set ''123456789''"
  by (auto simp add: level_literals_def)

lemma py_int_fmt_d:
  assumes "1 \<le> n" "n \<le> 9"
  shows "PStr (fmt_d n) \<in> set level_literals" and "py_int (PStr (fmt_d n)) = Inr n"
  using level_cases [OF assms]
  by (auto simp add: fmt_d_digit py_int_literal level_literals_def)

lemma py_int_level:
  assumes "v \<in> set level_literals"
  shows "\<exists>n. py_int v = Inr n \<and> 1 \<le> n \<and> n \<le> 9"
  using assms by (auto simp add: level_literals_def py_int_literal)

lemma Offer_init_level:
  "requestMax = 0 \<or> (1 \<le> requestMax \<and> requestMax \<le> 9) \<Longrightarrow>
     Offer_init acceptMax requestMax =
       Inr \<lparr>acceptMaxCompressLevel = acceptMax, requestMaxCompressLevel = requestMax\<rparr>"
  using level_cases [of requestMax]
  by (auto simp add: Offer_init_def COMPRESS_LEVEL_PERMISSIBLE_VALUES_def)

text \<open>
  Claim C2. For each leveled parameter (\<open>s2c_max_compress_level\<close> of an offer,
  \<open>c2s_max_compress_level\<close> and \<open>s2c_max_compress_level\<close> of a response), a single value
  that is the decimal form of a level \<open>n\<close> from 1 to 9 is accepted and sets the field to
  \<open>n\<close>, wherever in the loop the parameter is met; a single value string that is none of
  \<open>"1"\<close> to \<open>"9"\<close> makes the loop, and the parse whose first parameter it is, raise the
  "illegal extension parameter value" exception for that value and parameter.
\<close>

theorem leveled_parameter_values:
  fixes n :: int and s :: string
  shows
    "(1 \<le> n \<and> n \<le> 9 \<longrightarrow>
        fmt_d n \<in> (\<lambda>c. [c]) ` set ''123456789'' \<and>
        Offer_parse [(''s2c_max_compress_level'', [PStr (fmt_d n)])] =
          Inr \<lparr>acceptMaxCompressLevel = False, requestMaxCompressLevel = n\<rparr> \<and>
        Response_parse [(''c2s_max_compress_level'', [PStr (fmt_d n)])] =
          Inr \<lparr>c2s_max_compress_level = n, s2c_max_compress_level = 0\<rparr> \<and>
        Response_parse [(''s2c_max_compress_level'', [PStr (fmt_d n)])] =
          Inr \<lparr>c2s_max_compress_level = 0, s2c_max_compress_level = n\<rparr> \<and>
        Offer_parse_loop ((''s2c_max_compress_level'', [PStr (fmt_d n)]) # rest) a r =
          Offer_parse_loop rest a n \<and>
        Response_parse_loop ((''c2s_max_compress_level'', [PStr (fmt_d n)]) # rest) c2s s2c =
          Response_parse_loop rest n s2c \<and>
        Response_parse_loop ((''s2c_max_compress_level'', [PStr (fmt_d n)]) # rest) c2s s2c =
          Response_parse_loop rest c2s n) \<and>
     (s \<notin> (\<lambda>c. [c]) ` set ''123456789'' \<longrightarrow>
        Offer_parse_loop ((''s2c_max_compress_level'', [PStr s]) # rest) a r =
          Inl (InvalidParameterValueError (PStr s) ''s2c_max_compress_level'') \<and>
        Response_parse_loop ((''c2s_max_compress_level'', [PStr s]) # rest) c2s s2c =
          Inl (InvalidParameterValueError (PStr s) ''c2s_max_compress_level'') \<and>
        Response_parse_loop ((''s2c_max_compress_level'', [PStr s]) # rest) c2s s2c =
          Inl (InvalidParameterValueError (PStr s) ''s2c_max_compress_level'') \<and>
        Offer_parse ((''s2c_max_compress_level'', [PStr s]) # rest) =
          Inl (InvalidParameterValueError (PStr s) ''s2c_max_compress_level'') \<and>
        Response_parse ((''c2s_max_compress_level'', [PStr s]) # rest) =
          Inl (InvalidParameterValueError (PStr s) ''c2s_max_compress_level'') \<and>
        Response_parse ((''s2c_max_compress_level'', [PStr s]) # rest) =
          Inl (InvalidParameterValueError (PStr s) ''s2c_max_compress_level''))"
proof (intro conjI impI)
  assume n: "1 \<le> n \<and> n \<le> 9"
  then have lit: "PStr (fmt_d n) \<in> set level_literals" and val: "py_int (PStr (fmt_d n)) = Inr n"
    by (simp_all add: py_int_fmt_d)
  from n have init: "Offer_init False n =
      Inr \<lparr>acceptMaxCompressLevel = False, requestMaxCompressLevel = n\<rparr>"
    by (simp add: Offer_init_level)
  from lit show "fmt_d n \<in> (\<lambda>c. [c]) ` set ''123456789''"
    by (simp only: level_literal_iff)
  show "Offer_parse [(''s2c_max_compress_level'', [PStr (fmt_d n)])] =
          Inr \<lparr>acceptMaxCompressLevel = False, requestMaxCompressLevel = n\<rparr>"
    by (simp add: Offer_parse_def lit val init)
  show "Response_parse [(''c2s_max_compress_level'', [PStr (fmt_d n)])] =
          Inr \<lparr>c2s_max_compress_level = n, s2c_max_compress_level = 0\<rparr>"
    by (simp add: Response_parse_def Response_init_def lit val)
  show "Response_parse [(''s2c_max_compress_level'', [PStr (fmt_d n)])] =
          Inr \<lparr>c2s_max_compress_level = 0, s2c_max_compress_level = n\<rparr>"
    by (simp add: Response_parse_def Response_init_def lit val)
  show "Offer_parse_loop ((''s2c_max_compress_level'', [PStr (fmt_d n)]) # rest) a r =
          Offer_parse_loop rest a n"
    by (simp add: lit val)
  show "Response_parse_loop ((''c2s_max_compress_level'', [PStr (fmt_d n)]) # rest) c2s s2c =
          Response_parse_loop rest n s2c"
    by (simp add: lit val)
  show "Response_parse_loop ((''s2c_max_compress_level'', [PStr (fmt_d n)]) # rest) c2s s2c =
          Response_parse_loop rest c2s n"
    by (simp add: lit val)
next
  assume "s \<notin> (\<lambda>c. [c]) ` set ''123456789''"
  then have bad: "PStr s \<notin> set level_literals"
    by (simp only: level_literal_iff not_False_eq_True)
  show "Offer_parse_loop ((''s2c_max_compress_level'', [PStr s]) # rest) a r =
          Inl (InvalidParameterValueError (PStr s) ''s2c_max_compress_level'')"
    by (simp add: bad)
  show "Response_parse_loop ((''c2s_max_compress_level'', [PStr s]) # rest) c2s s2c =
          Inl (InvalidParameterValueError (PStr s) ''c2s_max_compress_level'')"
    by (simp add: bad)
  show "Response_parse_loop ((''s2c_max_compress_level'', [PStr s]) # rest) c2s s2c =
          Inl (InvalidParameterValueError (PStr s) ''s2c_max_compress_level'')"
    by (simp add: bad)
  show "Offer_parse ((''s2c_max_compress_level'', [PStr s]) # rest) =
          Inl (InvalidParameterValueError (PStr s) ''s2c_max_compress_level'')"
    by (simp add: Offer_parse_def bad)
  show "Response_parse ((''c2s_max_compress_level'', [PStr s]) # rest) =
          Inl (InvalidParameterValueError (PStr s) ''c2s_max_compress_level'')"
    by (simp add: Response_parse_def bad)
  show "Response_parse ((''s2c_max_compress_level'', [PStr s]) # rest) =
          Inl (InvalidParameterValueError (PStr s) ''s2c_max_compress_level'')"
    by (simp add: Response_parse_def bad)
qed

text \<open>Level 7, and the four strings \<open>"0"\<close>, \<open>"10"\<close>, \<open>""\<close> and \<open>"abc"\<close>.\<close>

theorem leveled_parameter_values_witness:
  "Offer_parse [(''s2c_max_compress_level'', [PStr (fmt_d 7)])] =
     Inr \<lparr>acceptMaxCompressLevel = False, requestMaxCompressLevel = 7\<rparr> \<and>
   Response_parse [(''c2s_max_compress_level'', [PStr (fmt_d 7)])] =
     Inr \<lparr>c2s_max_compress_level = 7, s2c_max_compress_level = 0\<rparr> \<and>
   Offer_parse [(''s2c_max_compress_level'', [PStr ''0''])] =
     Inl (InvalidParameterValueError (PStr ''0'') ''s2c_max_compress_level'') \<and>
   Response_parse [(''c2s_max_compress_level'', [PStr ''10''])] =
     Inl (InvalidParameterValueError (PStr ''10'') ''c2s_max_compress_level'') \<and>
   Response_parse [(''s2c_max_compress_level'', [PStr []])] =
     Inl (InvalidParameterValueError (PStr []) ''s2c_max_compress_level'') \<and>
   Offer_parse [(''s2c_max_compress_level'', [PStr ''abc''])] =
     Inl (InvalidParameterValueError (PStr ''abc'') ''s2c_max_compress_level'')"
  using leveled_parameter_values [where n = 7 and s = "''0''" and rest = "[]"]
        leveled_parameter_values [where n = 7 and s = "''10''" and rest = "[]"]
        leveled_parameter_values [where n = 7 and s = "[]" and rest = "[]"]
        leveled_parameter_values [where n = 7 and s = "''abc''" and rest = "[]"]
  by simp

subsection \<open>Duplicate parameters\<close>

lemma Offer_parse_loop_append:
  "Offer_parse_loop (pre @ post) a r =
     (case Offer_parse_loop pre a r of
        Inl e \<Rightarrow> Inl e
      | Inr st \<Rightarrow> Offer_parse_loop post (fst st) (snd st))"
proof (induction pre a r rule: Offer_parse_loop.induct)
  case (1 a r)
  show ?case by simp
next
  case (2 p vals rest a r)
  show ?case
  proof (cases vals)
    case Nil
    then show ?thesis by simp
  next
    case (Cons val more)
    with 2 show ?thesis
      by (auto split: sum.splits)
  qed
qed

lemma Response_parse_loop_append:
  "Response_parse_loop (pre @ post) c2s s2c =
     (case Response_parse_loop pre c2s s2c of
        Inl e \<Rightarrow> Inl e
      | Inr st \<Rightarrow> Response_parse_loop post (fst st) (snd st))"
proof (induction pre c2s s2c rule: Response_parse_loop.induct)
  case (1 c2s s2c)
  show ?case by simp
next
  case (2 p vals rest c2s s2c)
  show ?case
  proof (cases vals)
    case Nil
    then show ?thesis by simp
  next
    case (Cons val more)
    with 2 show ?thesis
      by (auto split: sum.splits)
  qed
qed

lemma Offer_parse_loop_duplicate:
  "1 < length vals \<Longrightarrow>
     Offer_parse_loop ((p, vals) # post) a r = Inl (DuplicateParameterError p)"
  by simp

lemma Response_parse_loop_duplicate:
  "1 < length vals \<Longrightarrow>
     Response_parse_loop ((p, vals) # post) c2s s2c = Inl (DuplicateParameterError p)"
  by simp

lemma Offer_parse_loop_rejected:
  "Offer_parse_loop pre a r = Inl e \<Longrightarrow> Offer_parse_loop (pre @ rest) a r = Inl e"
  by (simp add: Offer_parse_loop_append)

lemma Response_parse_loop_rejected:
  "Response_parse_loop pre c2s s2c = Inl e \<Longrightarrow>
     Response_parse_loop (pre @ rest) c2s s2c = Inl e"
  by (simp add: Response_parse_loop_append)

lemma Offer_parse_loop_first_rejected:
  assumes "Offer_parse_loop ok a r = Inr st"
    and "Offer_parse_loop [(q, ws)] (fst st) (snd st) = Inl e"
  shows "Offer_parse_loop (ok @ (q, ws) # rest) a r = Inl e"
proof -
  have "Offer_parse_loop ([(q, ws)] @ rest) (fst st) (snd st) = Inl e"
    using assms(2) by (rule Offer_parse_loop_rejected)
  with assms(1) show ?thesis
    by (simp add: Offer_parse_loop_append [of ok])
qed

lemma Response_parse_loop_first_rejected:
  assumes "Response_parse_loop ok c2s s2c = Inr st"
    and "Response_parse_loop [(q, ws)] (fst st) (snd st) = Inl e"
  shows "Response_parse_loop (ok @ (q, ws) # rest) c2s s2c = Inl e"
proof -
  have "Response_parse_loop ([(q, ws)] @ rest) (fst st) (snd st) = Inl e"
    using assms(2) by (rule Response_parse_loop_rejected)
  with assms(1) show ?thesis
    by (simp add: Response_parse_loop_append [of ok])
qed

text \<open>
  Claim C3, as amended. A dict with a parameter of more than one value is never parsed
  successfully, by neither \<open>parse\<close>. The exception is the "multiple occurence" one, for
  that parameter, whatever its name and its values are, when the parameters visited
  before it (\<open>pre\<close>) pass the loop, and in particular when it is visited first. When the
  loop rejects a parameter visited before it, the exception is the one of that earlier
  parameter: whatever the loop raises on \<open>pre\<close> is what \<open>parse\<close> raises, and when the
  parameters \<open>ok\<close> pass and the next one, \<open>(q, ws)\<close>, is rejected with \<open>e\<close>, then \<open>e\<close> is
  raised whatever comes between it and the parameter with several values.
\<close>

theorem duplicate_parameter_rejected:
  assumes "1 < length vals"
  shows
    "(Offer_parse_loop pre False 0 = Inr st \<longrightarrow>
        Offer_parse (pre @ (p, vals) # post) = Inl (DuplicateParameterError p)) \<and>
     (Response_parse_loop pre 0 0 = Inr st' \<longrightarrow>
        Response_parse (pre @ (p, vals) # post) = Inl (DuplicateParameterError p)) \<and>
     (Offer_parse_loop pre False 0 = Inl e \<longrightarrow>
        Offer_parse (pre @ (p, vals) # post) = Inl e) \<and>
     (Response_parse_loop pre 0 0 = Inl e' \<longrightarrow>
        Response_parse (pre @ (p, vals) # post) = Inl e') \<and>
     (Offer_parse_loop ok False 0 = Inr ost \<and>
      Offer_parse_loop [(q, ws)] (fst ost) (snd ost) = Inl e \<longrightarrow>
        Offer_parse (ok @ (q, ws) # mid @ (p, vals) # post) = Inl e) \<and>
     (Response_parse_loop ok 0 0 = Inr rst \<and>
      Response_parse_loop [(q, ws)] (fst rst) (snd rst) = Inl e' \<longrightarrow>
        Response_parse (ok @ (q, ws) # mid @ (p, vals) # post) = Inl e') \<and>
     Offer_parse ((p, vals) # post) = Inl (DuplicateParameterError p) \<and>
     Response_parse ((p, vals) # post) = Inl (DuplicateParameterError p) \<and>
     isl (Offer_parse (pre @ (p, vals) # post)) \<and>
     isl (Response_parse (pre @ (p, vals) # post))"
proof (intro conjI impI)
  assume "Offer_parse_loop pre False 0 = Inr st"
  with assms show "Offer_parse (pre @ (p, vals) # post) = Inl (DuplicateParameterError p)"
    by (simp add: Offer_parse_def Offer_parse_loop_append)
next
  assume "Response_parse_loop pre 0 0 = Inr st'"
  with assms show "Response_parse (pre @ (p, vals) # post) = Inl (DuplicateParameterError p)"
    by (simp add: Response_parse_def Response_parse_loop_append)
next
  assume "Offer_parse_loop pre False 0 = Inl e"
  then have "Offer_parse_loop (pre @ (p, vals) # post) False 0 = Inl e"
    by (rule Offer_parse_loop_rejected)
  then show "Offer_parse (pre @ (p, vals) # post) = Inl e"
    by (simp add: Offer_parse_def)
next
  assume "Response_parse_loop pre 0 0 = Inl e'"
  then have "Response_parse_loop (pre @ (p, vals) # post) 0 0 = Inl e'"
    by (rule Response_parse_loop_rejected)
  then show "Response_parse (pre @ (p, vals) # post) = Inl e'"
    by (simp add: Response_parse_def)
next
  assume h: "Offer_parse_loop ok False 0 = Inr ost \<and>
      Offer_parse_loop [(q, ws)] (fst ost) (snd ost) = Inl e"
  have "Offer_parse_loop (ok @ (q, ws) # mid @ (p, vals) # post) False 0 = Inl e"
    using h by (intro Offer_parse_loop_first_rejected [of ok False 0 ost]) simp_all
  then show "Offer_parse (ok @ (q, ws) # mid @ (p, vals) # post) = Inl e"
    by (simp add: Offer_parse_def)
next
  assume h: "Response_parse_loop ok 0 0 = Inr rst \<and>
      Response_parse_loop [(q, ws)] (fst rst) (snd rst) = Inl e'"
  have "Response_parse_loop (ok @ (q, ws) # mid @ (p, vals) # post) 0 0 = Inl e'"
    using h by (intro Response_parse_loop_first_rejected [of ok 0 0 rst]) simp_all
  then show "Response_parse (ok @ (q, ws) # mid @ (p, vals) # post) = Inl e'"
    by (simp add: Response_parse_def)
next
  from assms show "Offer_parse ((p, vals) # post) = Inl (DuplicateParameterError p)"
    by (simp add: Offer_parse_def)
next
  from assms show "Response_parse ((p, vals) # post) = Inl (DuplicateParameterError p)"
    by (simp add: Response_parse_def)
next
  from assms show "isl (Offer_parse (pre @ (p, vals) # post))"
    by (cases "Offer_parse_loop pre False 0")
       (simp_all add: Offer_parse_def Offer_parse_loop_append)
next
  from assms show "isl (Response_parse (pre @ (p, vals) # post))"
    by (cases "Response_parse_loop pre 0 0")
       (simp_all add: Response_parse_def Response_parse_loop_append)
qed

text \<open>
  A valid level followed by a flag given twice; and a valid level, then a parameter of
  an unknown name, then the flag given twice.
\<close>

theorem duplicate_parameter_rejected_witness:
  "Offer_parse ([(''s2c_max_compress_level'', [PStr ''3''])] @
      (''c2s_max_compress_level'', [PBool True, PBool True]) # []) =
     Inl (DuplicateParameterError ''c2s_max_compress_level'') \<and>
   Response_parse ([(''s2c_max_compress_level'', [PStr ''3''])] @
      (''c2s_max_compress_level'', [PBool True, PBool True]) # []) =
     Inl (DuplicateParameterError ''c2s_max_compress_level'') \<and>
   Offer_parse ([(''s2c_max_compress_level'', [PStr ''3'']), (''a'', [PBool True])] @
      (''c2s_max_compress_level'', [PBool True, PBool True]) # []) =
     Inl (UnknownParameterError ''a'') \<and>
   Response_parse ([(''s2c_max_compress_level'', [PStr ''3'']), (''a'', [PBool True])] @
      (''c2s_max_compress_level'', [PBool True, PBool True]) # []) =
     Inl (UnknownParameterError ''a'') \<and>
   Offer_parse ([(''s2c_max_compress_level'', [PStr ''3''])] @ (''a'', [PBool True]) #
      [(''b'', [PStr ''x''])] @ (''c2s_max_compress_level'', [PBool True, PBool True]) # []) =
     Inl (UnknownParameterError ''a'') \<and>
   Response_parse ([(''s2c_max_compress_level'', [PStr ''3''])] @ (''a'', [PBool True]) #
      [(''b'', [PStr ''x''])] @ (''c2s_max_compress_level'', [PBool True, PBool True]) # []) =
     Inl (UnknownParameterError ''a'')"
proof -
  have len: "1 < length [PBool True, PBool True]" by simp
  have o: "Offer_parse_loop [(''s2c_max_compress_level'', [PStr ''3''])] False 0 = Inr (False, 3)"
    by (simp add: level_literals_def py_int_literal)
  have r: "Response_parse_loop [(''s2c_max_compress_level'', [PStr ''3''])] 0 0 = Inr (0, 3)"
    by (simp add: level_literals_def py_int_literal)
  have o': "Offer_parse_loop [(''s2c_max_compress_level'', [PStr ''3'']), (''a'', [PBool True])]
      False 0 = Inl (UnknownParameterError ''a'')"
    by (simp add: level_literals_def py_int_literal)
  have r': "Response_parse_loop [(''s2c_max_compress_level'', [PStr ''3'']), (''a'', [PBool True])]
      0 0 = Inl (UnknownParameterError ''a'')"
    by (simp add: level_literals_def py_int_literal)
  have oa: "Offer_parse_loop [(''a'', [PBool True])] (fst (False, 3::int)) (snd (False, 3::int)) =
      Inl (UnknownParameterError ''a'')"
    by simp
  have ra: "Response_parse_loop [(''a'', [PBool True])] (fst (0::int, 3::int)) (snd (0::int, 3::int)) =
      Inl (UnknownParameterError ''a'')"
    by simp
  note accepted = duplicate_parameter_rejected [OF len,
      where pre = "[(''s2c_max_compress_level'', [PStr ''3''])]" and st = "(False, 3)"
        and st' = "(0, 3)" and p = "''c2s_max_compress_level''" and post = "[]"]
  note rejected = duplicate_parameter_rejected [OF len,
      where pre = "[(''s2c_max_compress_level'', [PStr ''3'']), (''a'', [PBool True])]"
        and e = "UnknownParameterError ''a''" and e' = "UnknownParameterError ''a''"
        and ok = "[(''s2c_max_compress_level'', [PStr ''3''])]" and ost = "(False, 3)"
        and rst = "(0, 3)" and q = "''a''" and ws = "[PBool True]"
        and mid = "[(''b'', [PStr ''x''])]"
        and p = "''c2s_max_compress_level''" and post = "[]"]
  from accepted o r rejected o' r' oa ra
  show ?thesis by blast
qed

text \<open>
  Claim C3 as stated fails: the loop stops at the first parameter it rejects, so a dict
  whose duplicated parameter is visited after an unknown parameter, or after a known one
  with an illegal value, raises the exception of that earlier parameter. The last four
  inputs cover both orders in which a dict can hand out the two known names.
\<close>

theorem duplicate_parameter_after_rejected_parameter:
  "Offer_parse [(''a'', [PBool True]), (''c2s_max_compress_level'', [PStr ''1'', PStr ''2''])] =
     Inl (UnknownParameterError ''a'') \<and>
   Response_parse [(''a'', [PBool True]), (''c2s_max_compress_level'', [PStr ''1'', PStr ''2''])] =
     Inl (UnknownParameterError ''a'') \<and>
   Offer_parse [(''c2s_max_compress_level'', [PStr ''x'']),
                (''s2c_max_compress_level'', [PStr ''1'', PStr ''2''])] =
     Inl (InvalidParameterValueError (PStr ''x'') ''c2s_max_compress_level'') \<and>
   Offer_parse [(''s2c_max_compress_level'', [PStr ''0'']),
                (''c2s_max_compress_level'', [PBool True, PBool True])] =
     Inl (InvalidParameterValueError (PStr ''0'') ''s2c_max_compress_level'') \<and>
   Response_parse [(''c2s_max_compress_level'', [PStr ''0'']),
                   (''s2c_max_compress_level'', [PStr ''1'', PStr ''2''])] =
     Inl (InvalidParameterValueError (PStr ''0'') ''c2s_max_compress_level'') \<and>
   Response_parse [(''s2c_max_compress_level'', [PStr ''0'']),
                   (''c2s_max_compress_level'', [PStr ''1'', PStr ''2''])] =
     Inl (InvalidParameterValueError (PStr ''0'') ''s2c_max_compress_level'')"
  by (simp add: Offer_parse_def Response_parse_def level_literals_def)

subsection \<open>Constructing an accept\<close>

lemma Accept_init_level:
  "requestMax = 0 \<or> (1 \<le> requestMax \<and> requestMax \<le> 9 \<and> acceptMaxCompressLevel off) \<Longrightarrow>
     Accept_init off requestMax = Inr \<lparr>offer = off, accept_requestMaxCompressLevel = requestMax\<rparr>"
  using level_cases [of requestMax]
  by (auto simp add: Accept_init_def COMPRESS_LEVEL_PERMISSIBLE_VALUES_def)

text \<open>
  Claim C4, as amended. \<open>PerMessageBzip2Accept.__init__\<close> raises the "feature unsupported
  by client" exception when the requested level is from 1 to 9 and the offer does not
  accept a maximum level; a level below 0 or above 9 raises the "permissible values"
  exception whatever the offer says; the constructor succeeds when the level is 0, or is
  from 1 to 9 and the offer accepts a maximum level.
\<close>

theorem Accept_init_outcomes:
  "(1 \<le> requestMax \<and> requestMax \<le> 9 \<and> \<not> acceptMaxCompressLevel off \<longrightarrow>
      Accept_init off requestMax = Inl (UnsupportedFeatureError requestMax)) \<and>
   (requestMax < 0 \<or> 9 < requestMax \<longrightarrow>
      Accept_init off requestMax = Inl (ConstructionError requestMax)) \<and>
   (requestMax = 0 \<or> (1 \<le> requestMax \<and> requestMax \<le> 9 \<and> acceptMaxCompressLevel off) \<longrightarrow>
      Accept_init off requestMax =
        Inr \<lparr>offer = off, accept_requestMaxCompressLevel = requestMax\<rparr>)"
proof (intro conjI impI)
  assume h: "1 \<le> requestMax \<and> requestMax \<le> 9 \<and> \<not> acceptMaxCompressLevel off"
  then show "Accept_init off requestMax = Inl (UnsupportedFeatureError requestMax)"
    using level_cases [of requestMax]
    by (auto simp add: Accept_init_def COMPRESS_LEVEL_PERMISSIBLE_VALUES_def)
next
  assume "requestMax < 0 \<or> 9 < requestMax"
  then show "Accept_init off requestMax = Inl (ConstructionError requestMax)"
    by (auto simp add: Accept_init_def COMPRESS_LEVEL_PERMISSIBLE_VALUES_def)
next
  assume "requestMax = 0 \<or> (1 \<le> requestMax \<and> requestMax \<le> 9 \<and> acceptMaxCompressLevel off)"
  then show "Accept_init off requestMax =
      Inr \<lparr>offer = off, accept_requestMaxCompressLevel = requestMax\<rparr>"
    by (rule Accept_init_level)
qed

text \<open>One input for each of the three outcomes, and level 0 against a refusing offer.\<close>

theorem Accept_init_outcomes_witness:
  "Accept_init \<lparr>acceptMaxCompressLevel = False, requestMaxCompressLevel = 0\<rparr> 5 =
     Inl (UnsupportedFeatureError 5) \<and>
   Accept_init \<lparr>acceptMaxCompressLevel = True, requestMaxCompressLevel = 4\<rparr> 12 =
     Inl (ConstructionError 12) \<and>
   Accept_init \<lparr>acceptMaxCompressLevel = True, requestMaxCompressLevel = 4\<rparr> 5 =
     Inr \<lparr>offer = \<lparr>acceptMaxCompressLevel = True, requestMaxCompressLevel = 4\<rparr>,
          accept_requestMaxCompressLevel = 5\<rparr> \<and>
   Accept_init \<lparr>acceptMaxCompressLevel = False, requestMaxCompressLevel = 4\<rparr> 0 =
     Inr \<lparr>offer = \<lparr>acceptMaxCompressLevel = False, requestMaxCompressLevel = 4\<rparr>,
          accept_requestMaxCompressLevel = 0\<rparr>"
  using Accept_init_outcomes [of 5 "\<lparr>acceptMaxCompressLevel = False, requestMaxCompressLevel = 0\<rparr>"]
        Accept_init_outcomes [of 12 "\<lparr>acceptMaxCompressLevel = True, requestMaxCompressLevel = 4\<rparr>"]
        Accept_init_outcomes [of 5 "\<lparr>acceptMaxCompressLevel = True, requestMaxCompressLevel = 4\<rparr>"]
        Accept_init_outcomes [of 0 "\<lparr>acceptMaxCompressLevel = False, requestMaxCompressLevel = 4\<rparr>"]
  by simp

text \<open>
  Claim C4 as stated fails at level 10 against an offer that accepts no maximum level:
  the range check comes first and raises the "permissible values" exception.
\<close>

theorem Accept_init_out_of_range_not_unsupported:
  "(10::int) \<noteq> 0 \<and>
   \<not> acceptMaxCompressLevel \<lparr>acceptMaxCompressLevel = False, requestMaxCompressLevel = 0\<rparr> \<and>
   Accept_init \<lparr>acceptMaxCompressLevel = False, requestMaxCompressLevel = 0\<rparr> 10 =
     Inl (ConstructionError 10) \<and>
   Accept_init \<lparr>acceptMaxCompressLevel = False, requestMaxCompressLevel = 0\<rparr> 10 \<noteq>
     Inl (UnsupportedFeatureError 10)"
  by (simp add: Accept_init_def COMPRESS_LEVEL_PERMISSIBLE_VALUES_def)

subsection \<open>Levels of a response and of a processor\<close>

lemma Response_parse_loop_range:
  assumes "Response_parse_loop ps c2s s2c = Inr (c2s', s2c')"
    and "0 \<le> c2s \<and> c2s \<le> 9" and "0 \<le> s2c \<and> s2c \<le> 9"
  shows "(0 \<le> c2s' \<and> c2s' \<le> 9) \<and> (0 \<le> s2c' \<and> s2c' \<le> 9)"
  using assms
proof (induction ps c2s s2c rule: Response_parse_loop.induct)
  case (1 c2s s2c)
  then show ?case by simp
next
  case (2 p vals rest c2s s2c)
  show ?case
  proof (cases vals)
    case Nil
    with 2 show ?thesis by simp
  next
    case (Cons val more)
    show ?thesis
    proof (cases "val \<in> set level_literals")
      case False
      with 2 Cons show ?thesis by (simp split: if_splits)
    next
      case True
      then obtain n where n: "py_int val = Inr n" "1 \<le> n" "n \<le> 9"
        using py_int_level by blast
      with 2 Cons True show ?thesis
        by (simp split: if_splits)
    qed
  qed
qed

lemma Response_parse_range:
  assumes ok: "Response_parse ps = Inr resp"
  shows "(0 \<le> c2s_max_compress_level resp \<and> c2s_max_compress_level resp \<le> 9) \<and>
         (0 \<le> s2c_max_compress_level resp \<and> s2c_max_compress_level resp \<le> 9)"
proof -
  from ok obtain a b where loop: "Response_parse_loop ps 0 0 = Inr (a, b)"
    and resp: "resp = \<lparr>c2s_max_compress_level = a, s2c_max_compress_level = b\<rparr>"
    by (auto simp add: Response_parse_def Response_init_def split: sum.splits)
  from Response_parse_loop_range [OF loop]
  have "(0 \<le> a \<and> a \<le> 9) \<and> (0 \<le> b \<and> b \<le> 9)"
    by simp
  with resp show ?thesis by simp
qed

text \<open>
  Claim C10, as amended. \<open>PerMessageBzip2Response.__init__\<close> checks nothing: for any two
  integers it returns a response that holds exactly them, and it raises no exception.
  That both fields are 0 or from 1 to 9 holds for every response that
  \<open>PerMessageBzip2Response.parse\<close> returns.
\<close>

theorem Response_fields:
  "(\<exists>resp. Response_init c2s s2c = Inr resp \<and>
      c2s_max_compress_level resp = c2s \<and> s2c_max_compress_level resp = s2c) \<and>
   Response_init c2s s2c \<noteq> Inl e \<and>
   (Response_parse ps = Inr resp' \<longrightarrow>
      (c2s_max_compress_level resp' = 0 \<or>
         (1 \<le> c2s_max_compress_level resp' \<and> c2s_max_compress_level resp' \<le> 9)) \<and>
      (s2c_max_compress_level resp' = 0 \<or>
         (1 \<le> s2c_max_compress_level resp' \<and> s2c_max_compress_level resp' \<le> 9)))"
proof -
  have init: "\<exists>resp. Response_init c2s s2c = Inr resp \<and>
      c2s_max_compress_level resp = c2s \<and> s2c_max_compress_level resp = s2c"
    by (simp add: Response_init_def)
  have no_raise: "Response_init c2s s2c \<noteq> Inl e"
    by (simp add: Response_init_def)
  have range: "(c2s_max_compress_level resp' = 0 \<or>
         (1 \<le> c2s_max_compress_level resp' \<and> c2s_max_compress_level resp' \<le> 9)) \<and>
      (s2c_max_compress_level resp' = 0 \<or>
         (1 \<le> s2c_max_compress_level resp' \<and> s2c_max_compress_level resp' \<le> 9))"
    if "Response_parse ps = Inr resp'"
    using Response_parse_range [OF that] by arith
  from init no_raise range show ?thesis by blast
qed

text \<open>The constructor on 3 and 0, and the response parsed from a client-to-server level of 3.\<close>

theorem Response_fields_witness:
  "Response_init 3 0 \<noteq> Inl (ConstructionError 3) \<and>
   Response_parse [(''c2s_max_compress_level'', [PStr ''3''])] =
     Inr \<lparr>c2s_max_compress_level = 3, s2c_max_compress_level = 0\<rparr> \<and>
   (s2c_max_compress_level \<lparr>c2s_max_compress_level = 3, s2c_max_compress_level = 0\<rparr> = 0 \<or>
    1 \<le> s2c_max_compress_level \<lparr>c2s_max_compress_level = 3, s2c_max_compress_level = 0\<rparr>) \<and>
   (1 \<le> c2s_max_compress_level \<lparr>c2s_max_compress_level = 3, s2c_max_compress_level = 0\<rparr> \<and>
    c2s_max_compress_level \<lparr>c2s_max_compress_level = 3, s2c_max_compress_level = 0\<rparr> \<le> 9)"
proof -
  have p: "Response_parse [(''c2s_max_compress_level'', [PStr ''3''])] =
     Inr \<lparr>c2s_max_compress_level = 3, s2c_max_compress_level = 0\<rparr>"
    by (simp add: Response_parse_def Response_init_def level_literals_def py_int_literal)
  from Response_fields [of 3 0 "ConstructionError 3"
      "[(''c2s_max_compress_level'', [PStr ''3''])]"
      "\<lparr>c2s_max_compress_level = 3, s2c_max_compress_level = 0\<rparr>"] p
  show ?thesis by simp
qed

text \<open>
  Claim C10 as stated fails: the constructor accepts the levels 10 and -1 and raises
  nothing.
\<close>

theorem Response_init_unchecked:
  "Response_init 10 (- 1) =
     Inr \<lparr>c2s_max_compress_level = 10, s2c_max_compress_level = - 1\<rparr> \<and>
   Response_init 10 (- 1) \<noteq> Inl (ConstructionError 10) \<and>
   Response_init 10 (- 1) \<noteq> Inl (ConstructionError (- 1))"
  by (simp add: Response_init_def)

lemma Offer_init_range:
  "Offer_init am n = Inr off \<Longrightarrow>
     acceptMaxCompressLevel off = am \<and> requestMaxCompressLevel off = n \<and> 0 \<le> n \<and> n \<le> 9"
  by (auto simp add: Offer_init_def COMPRESS_LEVEL_PERMISSIBLE_VALUES_def split: if_splits)

lemma Accept_init_range:
  "Accept_init off m = Inr acc \<Longrightarrow>
     offer acc = off \<and> accept_requestMaxCompressLevel acc = m \<and> 0 \<le> m \<and> m \<le> 9"
  by (auto simp add: Accept_init_def COMPRESS_LEVEL_PERMISSIBLE_VALUES_def split: if_splits)

text \<open>
  Claim C6, as amended. \<open>createFromAccept\<close> takes the server-to-client level from the
  request of the accept's offer and the client-to-server level from the accept's own
  request; \<open>createFromResponse\<close> takes them from the two fields of the response; in both a
  level of 0 becomes 9. Both levels of the processor are from 1 to 9 when the accept and
  its offer come from their constructors, and when the response comes from \<open>parse\<close>.
\<close>

theorem processor_levels:
  "pmce_s2c_max_compress_level (createFromAccept b acc :: ('c, 'd) PerMessageBzip2) =
     (if requestMaxCompressLevel (offer acc) = 0 then 9 else requestMaxCompressLevel (offer acc)) \<and>
   pmce_c2s_max_compress_level (createFromAccept b acc :: ('c, 'd) PerMessageBzip2) =
     (if accept_requestMaxCompressLevel acc = 0 then 9 else accept_requestMaxCompressLevel acc) \<and>
   pmce_s2c_max_compress_level (createFromResponse b resp :: ('c, 'd) PerMessageBzip2) =
     (if s2c_max_compress_level resp = 0 then 9 else s2c_max_compress_level resp) \<and>
   pmce_c2s_max_compress_level (createFromResponse b resp :: ('c, 'd) PerMessageBzip2) =
     (if c2s_max_compress_level resp = 0 then 9 else c2s_max_compress_level resp) \<and>
   (Offer_init am n = Inr off \<and> Accept_init off m = Inr acc \<longrightarrow>
      (1 \<le> pmce_s2c_max_compress_level (createFromAccept b acc :: ('c, 'd) PerMessageBzip2) \<and>
       pmce_s2c_max_compress_level (createFromAccept b acc :: ('c, 'd) PerMessageBzip2) \<le> 9) \<and>
      (1 \<le> pmce_c2s_max_compress_level (createFromAccept b acc :: ('c, 'd) PerMessageBzip2) \<and>
       pmce_c2s_max_compress_level (createFromAccept b acc :: ('c, 'd) PerMessageBzip2) \<le> 9)) \<and>
   (Response_parse ps = Inr resp \<longrightarrow>
      (1 \<le> pmce_s2c_max_compress_level (createFromResponse b resp :: ('c, 'd) PerMessageBzip2) \<and>
       pmce_s2c_max_compress_level (createFromResponse b resp :: ('c, 'd) PerMessageBzip2) \<le> 9) \<and>
      (1 \<le> pmce_c2s_max_compress_level (createFromResponse b resp :: ('c, 'd) PerMessageBzip2) \<and>
       pmce_c2s_max_compress_level (createFromResponse b resp :: ('c, 'd) PerMessageBzip2) \<le> 9))"
proof -
  have eqs:
    "pmce_s2c_max_compress_level (createFromAccept b acc :: ('c, 'd) PerMessageBzip2) =
       (if requestMaxCompressLevel (offer acc) = 0 then 9 else requestMaxCompressLevel (offer acc))"
    "pmce_c2s_max_compress_level (createFromAccept b acc :: ('c, 'd) PerMessageBzip2) =
       (if accept_requestMaxCompressLevel acc = 0 then 9 else accept_requestMaxCompressLevel acc)"
    "pmce_s2c_max_compress_level (createFromResponse b resp :: ('c, 'd) PerMessageBzip2) =
       (if s2c_max_compress_level resp = 0 then 9 else s2c_max_compress_level resp)"
    "pmce_c2s_max_compress_level (createFromResponse b resp :: ('c, 'd) PerMessageBzip2) =
       (if c2s_max_compress_level resp = 0 then 9 else c2s_max_compress_level resp)"
    by (simp_all add: createFromAccept_def createFromResponse_def PerMessageBzip2_init_def
          DEFAULT_COMPRESS_LEVEL_def)
  have acc_range: "Offer_init am n = Inr off \<and> Accept_init off m = Inr acc \<longrightarrow>
      (0 \<le> requestMaxCompressLevel (offer acc) \<and> requestMaxCompressLevel (offer acc) \<le> 9) \<and>
      (0 \<le> accept_requestMaxCompressLevel acc \<and> accept_requestMaxCompressLevel acc \<le> 9)"
    using Offer_init_range [of am n off] Accept_init_range [of off m acc] by auto
  have resp_range: "Response_parse ps = Inr resp \<longrightarrow>
      (0 \<le> c2s_max_compress_level resp \<and> c2s_max_compress_level resp \<le> 9) \<and>
      (0 \<le> s2c_max_compress_level resp \<and> s2c_max_compress_level resp \<le> 9)"
    using Response_parse_range [of ps resp] by blast
  have acc_levels: "Offer_init am n = Inr off \<and> Accept_init off m = Inr acc \<longrightarrow>
      (1 \<le> pmce_s2c_max_compress_level (createFromAccept b acc :: ('c, 'd) PerMessageBzip2) \<and>
       pmce_s2c_max_compress_level (createFromAccept b acc :: ('c, 'd) PerMessageBzip2) \<le> 9) \<and>
      (1 \<le> pmce_c2s_max_compress_level (createFromAccept b acc :: ('c, 'd) PerMessageBzip2) \<and>
       pmce_c2s_max_compress_level (createFromAccept b acc :: ('c, 'd) PerMessageBzip2) \<le> 9)"
    using acc_range unfolding eqs by auto
  have resp_levels: "Response_parse ps = Inr resp \<longrightarrow>
      (1 \<le> pmce_s2c_max_compress_level (createFromResponse b resp :: ('c, 'd) PerMessageBzip2) \<and>
       pmce_s2c_max_compress_level (createFromResponse b resp :: ('c, 'd) PerMessageBzip2) \<le> 9) \<and>
      (1 \<le> pmce_c2s_max_compress_level (createFromResponse b resp :: ('c, 'd) PerMessageBzip2) \<and>
       pmce_c2s_max_compress_level (createFromResponse b resp :: ('c, 'd) PerMessageBzip2) \<le> 9)"
    using resp_range unfolding eqs by auto
  from eqs acc_levels resp_levels show ?thesis
    by blast
qed


text \<open>
  An accept that requests level 4 for an offer without a request, and the response
  parsed from a server-to-client level of 3.
\<close>

theorem processor_levels_witness:
  "pmce_s2c_max_compress_level
     (createFromAccept True
        \<lparr>offer = \<lparr>acceptMaxCompressLevel = True, requestMaxCompressLevel = 0\<rparr>,
         accept_requestMaxCompressLevel = 4\<rparr> :: (unit, unit) PerMessageBzip2) = 9 \<and>
   pmce_c2s_max_compress_level
     (createFromAccept True
        \<lparr>offer = \<lparr>acceptMaxCompressLevel = True, requestMaxCompressLevel = 0\<rparr>,
         accept_requestMaxCompressLevel = 4\<rparr> :: (unit, unit) PerMessageBzip2) = 4 \<and>
   pmce_s2c_max_compress_level
     (createFromResponse False \<lparr>c2s_max_compress_level = 0, s2c_max_compress_level = 3\<rparr>
        :: (unit, unit) PerMessageBzip2) = 3 \<and>
   pmce_c2s_max_compress_level
     (createFromResponse False \<lparr>c2s_max_compress_level = 0, s2c_max_compress_level = 3\<rparr>
        :: (unit, unit) PerMessageBzip2) = 9"
proof -
  have o: "Offer_init True 0 = Inr \<lparr>acceptMaxCompressLevel = True, requestMaxCompressLevel = 0\<rparr>"
    by (simp add: Offer_init_def)
  have a: "Accept_init \<lparr>acceptMaxCompressLevel = True, requestMaxCompressLevel = 0\<rparr> 4 =
      Inr \<lparr>offer = \<lparr>acceptMaxCompressLevel = True, requestMaxCompressLevel = 0\<rparr>,
           accept_requestMaxCompressLevel = 4\<rparr>"
    by (simp add: Accept_init_def COMPRESS_LEVEL_PERMISSIBLE_VALUES_def)
  have r: "Response_parse [(''s2c_max_compress_level'', [PStr ''3''])] =
      Inr \<lparr>c2s_max_compress_level = 0, s2c_max_compress_level = 3\<rparr>"
    by (simp add: Response_parse_def Response_init_def level_literals_def py_int_literal)
  from processor_levels [where 'c = unit and 'd = unit and b = True and am = True and n = 0 and m = 4
      and off = "\<lparr>acceptMaxCompressLevel = True, requestMaxCompressLevel = 0\<rparr>"
      and acc = "\<lparr>offer = \<lparr>acceptMaxCompressLevel = True, requestMaxCompressLevel = 0\<rparr>,
                  accept_requestMaxCompressLevel = 4\<rparr>"]
    processor_levels [where 'c = unit and 'd = unit and b = False and ps = "[(''s2c_max_compress_level'', [PStr ''3''])]"
      and resp = "\<lparr>c2s_max_compress_level = 0, s2c_max_compress_level = 3\<rparr>"]
    o a r
  show ?thesis by simp
qed

text \<open>
  Claim C6 as stated fails in its last part: neither the response's constructor nor the
  processor's checks a level, so the response built from 10 and -1 gives a processor
  with these two levels.
\<close>

theorem createFromResponse_levels_out_of_range:
  "Response_init 10 (- 1) =
     Inr \<lparr>c2s_max_compress_level = 10, s2c_max_compress_level = - 1\<rparr> \<and>
   pmce_c2s_max_compress_level
     (createFromResponse False \<lparr>c2s_max_compress_level = 10, s2c_max_compress_level = - 1\<rparr>
        :: (unit, unit) PerMessageBzip2) = 10 \<and>
   pmce_s2c_max_compress_level
     (createFromResponse False \<lparr>c2s_max_compress_level = 10, s2c_max_compress_level = - 1\<rparr>
        :: (unit, unit) PerMessageBzip2) = - 1 \<and>
   \<not> (pmce_c2s_max_compress_level
        (createFromResponse False \<lparr>c2s_max_compress_level = 10, s2c_max_compress_level = - 1\<rparr>
        :: (unit, unit) PerMessageBzip2) \<le> 9) \<and>
   \<not> (1 \<le> pmce_s2c_max_compress_level
        (createFromResponse False \<lparr>c2s_max_compress_level = 10, s2c_max_compress_level = - 1\<rparr>
        :: (unit, unit) PerMessageBzip2))"
  by (simp add: Response_init_def createFromResponse_def PerMessageBzip2_init_def)

subsection \<open>The codecs of a processor\<close>

text \<open>
  Claim C7. With no compressor in place, \<open>startCompressMessage\<close> asks the library for a
  compressor at the server-to-client level on a server and at the client-to-server level
  on a client, and stores what it gets (an exception of the library's constructor
  passes through). With a compressor in place it changes nothing; so a second call
  right after a successful one changes nothing.
\<close>

theorem startCompressMessage_level:
  "(compressor self = None \<longrightarrow>
      startCompressMessage bz self =
        (case BZ2Compressor bz (if isServer self then pmce_s2c_max_compress_level self
                                else pmce_c2s_max_compress_level self) of
           Inl e \<Rightarrow> Inl e
         | Inr c \<Rightarrow> Inr (self\<lparr>compressor := Some c\<rparr>))) \<and>
   (compressor self \<noteq> None \<longrightarrow> startCompressMessage bz self = Inr self) \<and>
   (startCompressMessage bz self = Inr self' \<longrightarrow> startCompressMessage bz self' = Inr self')"
proof (intro conjI impI)
  assume "compressor self = None"
  then show "startCompressMessage bz self =
        (case BZ2Compressor bz (if isServer self then pmce_s2c_max_compress_level self
                                else pmce_c2s_max_compress_level self) of
           Inl e \<Rightarrow> Inl e
         | Inr c \<Rightarrow> Inr (self\<lparr>compressor := Some c\<rparr>))"
    by (simp add: startCompressMessage_def)
next
  assume "compressor self \<noteq> None"
  then show "startCompressMessage bz self = Inr self"
    by (auto simp add: startCompressMessage_def)
next
  assume "startCompressMessage bz self = Inr self'"
  then have "compressor self' \<noteq> None"
    by (auto simp add: startCompressMessage_def split: if_splits sum.splits)
  then show "startCompressMessage bz self' = Inr self'"
    by (auto simp add: startCompressMessage_def)
qed

text \<open>A server and a client with levels 3 and 9, and a server in mid-message.\<close>

theorem startCompressMessage_level_witness:
  "startCompressMessage store_bz2
     \<lparr>isServer = True, compressor = None, decompressor = None,
      pmce_s2c_max_compress_level = 3, pmce_c2s_max_compress_level = 9\<rparr> =
     Inr \<lparr>isServer = True, compressor = Some (3, []), decompressor = None,
          pmce_s2c_max_compress_level = 3, pmce_c2s_max_compress_level = 9\<rparr> \<and>
   startCompressMessage store_bz2
     \<lparr>isServer = False, compressor = None, decompressor = None,
      pmce_s2c_max_compress_level = 3, pmce_c2s_max_compress_level = 9\<rparr> =
     Inr \<lparr>isServer = False, compressor = Some (9, []), decompressor = None,
          pmce_s2c_max_compress_level = 3, pmce_c2s_max_compress_level = 9\<rparr> \<and>
   startCompressMessage store_bz2
     \<lparr>isServer = True, compressor = Some (3, ''abc''), decompressor = None,
      pmce_s2c_max_compress_level = 3, pmce_c2s_max_compress_level = 9\<rparr> =
     Inr \<lparr>isServer = True, compressor = Some (3, ''abc''), decompressor = None,
          pmce_s2c_max_compress_level = 3, pmce_c2s_max_compress_level = 9\<rparr>"
  using startCompressMessage_level [where bz = store_bz2 and self =
          "\<lparr>isServer = True, compressor = None, decompressor = None,
            pmce_s2c_max_compress_level = 3, pmce_c2s_max_compress_level = 9\<rparr>"
          and self' =
          "\<lparr>isServer = True, compressor = Some (3, []), decompressor = None,
            pmce_s2c_max_compress_level = 3, pmce_c2s_max_compress_level = 9\<rparr>"]
        startCompressMessage_level [where bz = store_bz2 and self =
          "\<lparr>isServer = False, compressor = None, decompressor = None,
            pmce_s2c_max_compress_level = 3, pmce_c2s_max_compress_level = 9\<rparr>"]
        startCompressMessage_level [where bz = store_bz2 and self =
          "\<lparr>isServer = True, compressor = Some (3, ''abc''), decompressor = None,
            pmce_s2c_max_compress_level = 3, pmce_c2s_max_compress_level = 9\<rparr>"]
  by (simp add: store_bz2_def)

text \<open>
  Claim C8. With a compressor in place whose \<open>flush\<close> returns, \<open>endCompressMessage\<close>
  returns the flushed bytes and sets the compressor field to \<open>None\<close>; whenever it returns,
  the decompressor, both levels and the role are as before. \<open>endDecompressMessage\<close> sets
  the decompressor field to \<open>None\<close> and changes no other field.
\<close>

theorem end_message_frame:
  "(compressor self = Some c \<and> BZ2Compressor_flush bz c = Inr data \<longrightarrow>
      endCompressMessage bz self = Inr (data, self\<lparr>compressor := None\<rparr>)) \<and>
   (endCompressMessage bz self = Inr (out, self') \<longrightarrow>
      (\<exists>c'. compressor self = Some c' \<and> BZ2Compressor_flush bz c' = Inr out) \<and>
      compressor self' = None \<and>
      decompressor self' = decompressor self \<and>
      pmce_s2c_max_compress_level self' = pmce_s2c_max_compress_level self \<and>
      pmce_c2s_max_compress_level self' = pmce_c2s_max_compress_level self \<and>
      isServer self' = isServer self) \<and>
   endDecompressMessage self = self\<lparr>decompressor := None\<rparr> \<and>
   decompressor (endDecompressMessage self) = None \<and>
   compressor (endDecompressMessage self) = compressor self \<and>
   pmce_s2c_max_compress_level (endDecompressMessage self) = pmce_s2c_max_compress_level self \<and>
   pmce_c2s_max_compress_level (endDecompressMessage self) = pmce_c2s_max_compress_level self \<and>
   isServer (endDecompressMessage self) = isServer self"
proof -
  have send: "endCompressMessage bz self = Inr (data, self\<lparr>compressor := None\<rparr>)"
    if "compressor self = Some c \<and> BZ2Compressor_flush bz c = Inr data"
    using that by (simp add: endCompressMessage_def)
  have frame: "(\<exists>c'. compressor self = Some c' \<and> BZ2Compressor_flush bz c' = Inr out) \<and>
      compressor self' = None \<and>
      decompressor self' = decompressor self \<and>
      pmce_s2c_max_compress_level self' = pmce_s2c_max_compress_level self \<and>
      pmce_c2s_max_compress_level self' = pmce_c2s_max_compress_level self \<and>
      isServer self' = isServer self"
    if "endCompressMessage bz self = Inr (out, self')"
    using that by (auto simp add: endCompressMessage_def split: option.splits sum.splits)
  have recv: "endDecompressMessage self = self\<lparr>decompressor := None\<rparr>"
    by (simp add: endDecompressMessage_def)
  from send frame show ?thesis
    unfolding recv by simp
qed

text \<open>A server in mid-message, with a decompressor in place too.\<close>

theorem end_message_frame_witness:
  "endCompressMessage store_bz2
     \<lparr>isServer = True, compressor = Some (3, ''abc''), decompressor = Some (),
      pmce_s2c_max_compress_level = 3, pmce_c2s_max_compress_level = 9\<rparr> =
     Inr (''abc'',
          \<lparr>isServer = True, compressor = None, decompressor = Some (),
           pmce_s2c_max_compress_level = 3, pmce_c2s_max_compress_level = 9\<rparr>) \<and>
   endDecompressMessage
     \<lparr>isServer = True, compressor = Some (3::int, ''abc''), decompressor = Some (),
      pmce_s2c_max_compress_level = 3, pmce_c2s_max_compress_level = 9\<rparr> =
     \<lparr>isServer = True, compressor = Some (3, ''abc''), decompressor = None,
      pmce_s2c_max_compress_level = 3, pmce_c2s_max_compress_level = 9\<rparr>"
proof -
  let ?self = "\<lparr>isServer = True, compressor = Some (3::int, ''abc''), decompressor = Some (),
      pmce_s2c_max_compress_level = 3, pmce_c2s_max_compress_level = 9\<rparr>"
  note frame = end_message_frame [where bz = store_bz2 and c = "(3, ''abc'')"
      and data = "''abc''" and self = ?self and out = "''abc''"
      and self' = "?self\<lparr>compressor := None\<rparr>"]
  have pre: "compressor ?self = Some (3, ''abc'') \<and>
      BZ2Compressor_flush store_bz2 (3, ''abc'') = Inr ''abc''"
    by (simp add: store_bz2_def)
  have send: "endCompressMessage store_bz2 ?self =
      Inr (''abc'', ?self\<lparr>compressor := None\<rparr>)"
    by (rule frame [THEN conjunct1, THEN mp, OF pre])
  have recv: "endDecompressMessage ?self = ?self\<lparr>decompressor := None\<rparr>"
    by (rule frame [THEN conjunct2, THEN conjunct2, THEN conjunct1])
  from send recv show ?thesis by simp
qed

text \<open>
  Claim C9. After an \<open>endCompressMessage\<close> that returned, the compressor field is \<open>None\<close>,
  and a second call raises \<open>AttributeError\<close> whatever the library is: no compressor is
  asked to flush again. The same holds for any call without a compressor in place.
\<close>

theorem endCompressMessage_twice:
  "(endCompressMessage bz self = Inr (out, self') \<longrightarrow>
      compressor self' = None \<and> endCompressMessage bz' self' = Inl AttributeError) \<and>
   (compressor self = None \<longrightarrow> endCompressMessage bz self = Inl AttributeError)"
  by (auto simp add: endCompressMessage_def split: option.splits sum.splits)

text \<open>The two calls on a server in mid-message.\<close>

theorem endCompressMessage_twice_witness:
  "endCompressMessage store_bz2
     \<lparr>isServer = True, compressor = Some (3, ''abc''), decompressor = None,
      pmce_s2c_max_compress_level = 3, pmce_c2s_max_compress_level = 9\<rparr> =
     Inr (''abc'',
          \<lparr>isServer = True, compressor = None, decompressor = None,
           pmce_s2c_max_compress_level = 3, pmce_c2s_max_compress_level = 9\<rparr>) \<and>
   endCompressMessage store_bz2
     \<lparr>isServer = True, compressor = None, decompressor = None,
      pmce_s2c_max_compress_level = 3, pmce_c2s_max_compress_level = 9\<rparr> =
     Inl AttributeError"
proof -
  have first: "endCompressMessage store_bz2
     \<lparr>isServer = True, compressor = Some (3, ''abc''), decompressor = None,
      pmce_s2c_max_compress_level = 3, pmce_c2s_max_compress_level = 9\<rparr> =
     Inr (''abc'',
          \<lparr>isServer = True, compressor = None, decompressor = None,
           pmce_s2c_max_compress_level = 3, pmce_c2s_max_compress_level = 9\<rparr>)"
    by (simp add: endCompressMessage_def store_bz2_def)
  from endCompressMessage_twice [where bz = store_bz2 and bz' = store_bz2 and out = "''abc''"
      and self = "\<lparr>isServer = True, compressor = Some (3, ''abc''), decompressor = None,
            pmce_s2c_max_compress_level = 3, pmce_c2s_max_compress_level = 9\<rparr>"
      and self' = "\<lparr>isServer = True, compressor = None, decompressor = None,
            pmce_s2c_max_compress_level = 3, pmce_c2s_max_compress_level = 9\<rparr>"] first
  show ?thesis by simp
qed

subsection \<open>The extension string of an accept\<close>

lemma fmt_d_single:
  "0 \<le> n \<Longrightarrow> n \<le> 9 \<Longrightarrow> fmt_d n = [digit_char (nat n)]"
  by (simp add: fmt_d_def dec_digits.simps)

lemma Offer_parse_single_level:
  assumes "Offer_parse [(''s2c_max_compress_level'', [PStr v])] = Inr off"
  shows "requestMaxCompressLevel off \<noteq> 0 \<and> fmt_d (requestMaxCompressLevel off) = v"
proof -
  have lit: "PStr v \<in> set level_literals"
    using assms by (auto simp add: Offer_parse_def split: if_splits)
  then have "v \<in> (\<lambda>c. [c]) ` set ''123456789''"
    by (simp only: level_literal_iff)
  then show ?thesis
    using assms
    by (auto simp add: Offer_parse_def level_literals_def py_int_literal Offer_init_def
          COMPRESS_LEVEL_PERMISSIBLE_VALUES_def fmt_d_digit)
qed

text \<open>
  Claim C5. For an accept built by the constructors from an offer with request \<open>n\<close> and
  with its own request \<open>m\<close>, \<open>getExtensionString\<close> is the extension name, then
  \<open>; s2c_max_compress_level=n\<close> exactly when \<open>n\<close> is not 0, then
  \<open>; c2s_max_compress_level=m\<close> exactly when \<open>m\<close> is not 0, in this order; a level that is
  written is one digit from 1 to 9; and when the offer was parsed from the value string
  \<open>v\<close> of \<open>s2c_max_compress_level\<close>, what is written for \<open>n\<close> is \<open>v\<close> itself.
\<close>

theorem Accept_getExtensionString_tokens:
  assumes "Offer_init am n = Inr off" and "Accept_init off m = Inr acc"
  shows
    "Accept_getExtensionString acc =
       ''permessage-bzip2''
       @ (if n \<noteq> 0 then ''; s2c_max_compress_level='' @ fmt_d n else [])
       @ (if m \<noteq> 0 then ''; c2s_max_compress_level='' @ fmt_d m else []) \<and>
     (n \<noteq> 0 \<longrightarrow> fmt_d n = [digit_char (nat n)] \<and> 1 \<le> n \<and> n \<le> 9) \<and>
     (m \<noteq> 0 \<longrightarrow> fmt_d m = [digit_char (nat m)] \<and> 1 \<le> m \<and> m \<le> 9) \<and>
     (Offer_parse [(''s2c_max_compress_level'', [PStr v])] = Inr off \<longrightarrow>
        n \<noteq> 0 \<and> fmt_d n = v)"
proof -
  from assms(1) have off: "requestMaxCompressLevel off = n" "0 \<le> n" "n \<le> 9"
    using Offer_init_range by blast+
  from assms(2) have acc: "offer acc = off" "accept_requestMaxCompressLevel acc = m"
    "0 \<le> m" "m \<le> 9"
    using Accept_init_range by blast+
  have str: "Accept_getExtensionString acc =
       ''permessage-bzip2''
       @ (if n \<noteq> 0 then ''; s2c_max_compress_level='' @ fmt_d n else [])
       @ (if m \<noteq> 0 then ''; c2s_max_compress_level='' @ fmt_d m else [])"
    by (simp add: Accept_getExtensionString_def EXTENSION_NAME_def off(1) acc(1,2))
  have dn: "n \<noteq> 0 \<longrightarrow> fmt_d n = [digit_char (nat n)] \<and> 1 \<le> n \<and> n \<le> 9"
    using off(2,3) fmt_d_single [of n] by auto
  have dm: "m \<noteq> 0 \<longrightarrow> fmt_d m = [digit_char (nat m)] \<and> 1 \<le> m \<and> m \<le> 9"
    using acc(3,4) fmt_d_single [of m] by auto
  have echo: "Offer_parse [(''s2c_max_compress_level'', [PStr v])] = Inr off \<longrightarrow>
        n \<noteq> 0 \<and> fmt_d n = v"
    using Offer_parse_single_level [of v off] off(1) by auto
  from str dn dm echo show ?thesis by blast
qed

text \<open>An accept with both tokens and an accept with none.\<close>

theorem Accept_getExtensionString_tokens_witness:
  "Accept_getExtensionString
     \<lparr>offer = \<lparr>acceptMaxCompressLevel = True, requestMaxCompressLevel = 7\<rparr>,
      accept_requestMaxCompressLevel = 4\<rparr> =
     ''permessage-bzip2; s2c_max_compress_level=7; c2s_max_compress_level=4'' \<and>
   Accept_getExtensionString
     \<lparr>offer = \<lparr>acceptMaxCompressLevel = False, requestMaxCompressLevel = 0\<rparr>,
      accept_requestMaxCompressLevel = 0\<rparr> = ''permessage-bzip2'' \<and>
   Offer_parse [(''s2c_max_compress_level'', [PStr ''5''])] =
     Inr \<lparr>acceptMaxCompressLevel = False, requestMaxCompressLevel = 5\<rparr> \<and>
   Accept_getExtensionString
     \<lparr>offer = \<lparr>acceptMaxCompressLevel = False, requestMaxCompressLevel = 5\<rparr>,
      accept_requestMaxCompressLevel = 0\<rparr> = ''permessage-bzip2; s2c_max_compress_level=5''"
proof -
  have o1: "Offer_init True 7 = Inr \<lparr>acceptMaxCompressLevel = True, requestMaxCompressLevel = 7\<rparr>"
    by (simp add: Offer_init_def COMPRESS_LEVEL_PERMISSIBLE_VALUES_def)
  have a1: "Accept_init \<lparr>acceptMaxCompressLevel = True, requestMaxCompressLevel = 7\<rparr> 4 =
      Inr \<lparr>offer = \<lparr>acceptMaxCompressLevel = True, requestMaxCompressLevel = 7\<rparr>,
           accept_requestMaxCompressLevel = 4\<rparr>"
    by (simp add: Accept_init_def COMPRESS_LEVEL_PERMISSIBLE_VALUES_def)
  have o2: "Offer_init False 0 = Inr \<lparr>acceptMaxCompressLevel = False, requestMaxCompressLevel = 0\<rparr>"
    by (simp add: Offer_init_def)
  have a2: "Accept_init \<lparr>acceptMaxCompressLevel = False, requestMaxCompressLevel = 0\<rparr> 0 =
      Inr \<lparr>offer = \<lparr>acceptMaxCompressLevel = False, requestMaxCompressLevel = 0\<rparr>,
           accept_requestMaxCompressLevel = 0\<rparr>"
    by (simp add: Accept_init_def)
  have o3: "Offer_init False 5 = Inr \<lparr>acceptMaxCompressLevel = False, requestMaxCompressLevel = 5\<rparr>"
    by (simp add: Offer_init_def COMPRESS_LEVEL_PERMISSIBLE_VALUES_def)
  have a3: "Accept_init \<lparr>acceptMaxCompressLevel = False, requestMaxCompressLevel = 5\<rparr> 0 =
      Inr \<lparr>offer = \<lparr>acceptMaxCompressLevel = False, requestMaxCompressLevel = 5\<rparr>,
           accept_requestMaxCompressLevel = 0\<rparr>"
    by (simp add: Accept_init_def)
  have p3: "Offer_parse [(''s2c_max_compress_level'', [PStr ''5''])] =
      Inr \<lparr>acceptMaxCompressLevel = False, requestMaxCompressLevel = 5\<rparr>"
    by (simp add: Offer_parse_def level_literals_def py_int_literal o3)
  from Accept_getExtensionString_tokens [OF o1 a1] Accept_getExtensionString_tokens [OF o2 a2]
    Accept_getExtensionString_tokens [OF o3 a3, where v = "''5''"] p3
  show ?thesis by (simp add: fmt_d_digit)
qed

subsection \<open>An offer on the wire and back\<close>

lemma header_params_Offer:
  assumes "requestMax = 0 \<or> (1 \<le> requestMax \<and> requestMax \<le> 9)"
  shows "header_params (Offer_getExtensionString
           \<lparr>acceptMaxCompressLevel = acceptMax, requestMaxCompressLevel = requestMax\<rparr>) =
         (if acceptMax then [(''c2s_max_compress_level'', [PBool True])] else []) @
         (if requestMax \<noteq> 0 then [(''s2c_max_compress_level'', [PStr (fmt_d requestMax)])]
          else [])"
proof -
  from assms level_cases [of requestMax]
  have "requestMax \<in> {0, 1, 2, 3, 4, 5, 6, 7, 8, 9}" by auto
  then show ?thesis
    by (cases acceptMax)
       (auto simp add: Offer_getExtensionString_def header_params_def EXTENSION_NAME_def
          param_token_def strip_def fmt_d_digit)
qed

lemma mset_eq_pair:
  assumes "mset ps = mset [x, y]"
  shows "ps = [x, y] \<or> ps = [y, x]"
proof -
  from assms have "length ps = 2"
    by (metis length_Cons list.size(3) numeral_2_eq_2 size_mset)
  then obtain u v where ps: "ps = [u, v]"
    by (metis (no_types) length_0_conv length_Suc_conv numeral_2_eq_2)
  with assms show ?thesis
    by (auto simp add: add_eq_conv_diff)
qed


lemma mset_eq_single: "mset ps = mset [x] \<Longrightarrow> ps = [x]"
  by simp

text \<open>
  Claim C1. For an offer built by the constructor (any flag, a request of 0 or from 1 to
  9), \<open>parse\<close> of the parameter dict of its extension string gives the offer back, in
  whatever order the dict hands out its keys. Without the flag the string has no
  \<open>c2s_max_compress_level\<close> token, and \<open>parse\<close> of no parameters gives an offer without
  the flag.
\<close>

theorem Offer_roundtrip:
  assumes off: "Offer_init acceptMax requestMax = Inr off"
    and order: "mset params = mset (header_params (Offer_getExtensionString off))"
  shows "Offer_parse params = Inr off \<and>
         off = \<lparr>acceptMaxCompressLevel = acceptMax, requestMaxCompressLevel = requestMax\<rparr> \<and>
         (\<not> acceptMax \<longrightarrow> ''c2s_max_compress_level'' \<notin> fst ` set params) \<and>
         Offer_parse [] = Inr \<lparr>acceptMaxCompressLevel = False, requestMaxCompressLevel = 0\<rparr>"
proof -
  from Offer_init_range [OF off]
  have level: "requestMax = 0 \<or> (1 \<le> requestMax \<and> requestMax \<le> 9)"
    by auto
  from level off
  have off_eq: "off = \<lparr>acceptMaxCompressLevel = acceptMax, requestMaxCompressLevel = requestMax\<rparr>"
    by (simp add: Offer_init_level)
  have init: "Offer_init a requestMax =
      Inr \<lparr>acceptMaxCompressLevel = a, requestMaxCompressLevel = requestMax\<rparr>" for a
    using level by (rule Offer_init_level)
  have empty: "Offer_parse [] = Inr \<lparr>acceptMaxCompressLevel = False, requestMaxCompressLevel = 0\<rparr>"
    by (simp add: Offer_parse_def Offer_init_def)
  let ?flag = "(''c2s_max_compress_level'', [PBool True])"
  let ?lev = "(''s2c_max_compress_level'', [PStr (fmt_d requestMax)])"
  from order off_eq
  have ps: "mset params = mset ((if acceptMax then [?flag] else []) @
      (if requestMax \<noteq> 0 then [?lev] else []))"
    by (simp only: header_params_Offer [OF level])
  have lit: "PStr (fmt_d requestMax) \<in> set level_literals"
    and val: "py_int (PStr (fmt_d requestMax)) = Inr requestMax" if "requestMax \<noteq> 0"
    using that level by (simp_all add: py_int_fmt_d)
  consider (none) "\<not> acceptMax" "requestMax = 0"
    | (flag) "acceptMax" "requestMax = 0"
    | (lev) "\<not> acceptMax" "requestMax \<noteq> 0"
    | (both) "acceptMax" "requestMax \<noteq> 0"
    by blast
  then have "Offer_parse params = Inr off \<and>
      (\<not> acceptMax \<longrightarrow> ''c2s_max_compress_level'' \<notin> fst ` set params)"
  proof cases
    case none
    with ps have "params = []" by simp
    with none off_eq show ?thesis
      by (simp add: Offer_parse_def Offer_init_def)
  next
    case flag
    with ps have "params = [?flag]" by simp
    with flag off_eq show ?thesis
      by (simp add: Offer_parse_def Offer_init_def)
  next
    case lev
    with ps have "params = [?lev]" by simp
    with lev off_eq lit val init [of False] show ?thesis
      by (simp add: Offer_parse_def)
  next
    case both
    with ps have "mset params = mset [?flag, ?lev]" by simp
    then have "params = [?flag, ?lev] \<or> params = [?lev, ?flag]"
      by (rule mset_eq_pair)
    with both off_eq lit val init [of True] show ?thesis
      by (auto simp add: Offer_parse_def)
  qed
  with off_eq empty show ?thesis by blast
qed

text \<open>
  The offer with the flag and level 7, its keys in the order opposite to the string's,
  and the offer without flag and request.
\<close>

theorem Offer_roundtrip_witness:
  "Offer_parse [(''s2c_max_compress_level'', [PStr ''7'']),
                (''c2s_max_compress_level'', [PBool True])] =
     Inr \<lparr>acceptMaxCompressLevel = True, requestMaxCompressLevel = 7\<rparr> \<and>
   Offer_parse (header_params (Offer_getExtensionString
       \<lparr>acceptMaxCompressLevel = False, requestMaxCompressLevel = 0\<rparr>)) =
     Inr \<lparr>acceptMaxCompressLevel = False, requestMaxCompressLevel = 0\<rparr>"
proof -
  have o1: "Offer_init True 7 = Inr \<lparr>acceptMaxCompressLevel = True, requestMaxCompressLevel = 7\<rparr>"
    by (simp add: Offer_init_def COMPRESS_LEVEL_PERMISSIBLE_VALUES_def)
  have hp: "header_params (Offer_getExtensionString
       \<lparr>acceptMaxCompressLevel = True, requestMaxCompressLevel = 7\<rparr>) =
     [(''c2s_max_compress_level'', [PBool True]), (''s2c_max_compress_level'', [PStr ''7''])]"
    by (simp add: Offer_getExtensionString_def header_params_def EXTENSION_NAME_def
          param_token_def strip_def fmt_d_digit)
  have m1: "mset [(''s2c_max_compress_level'', [PStr ''7'']),
                  (''c2s_max_compress_level'', [PBool True])] =
      mset (header_params (Offer_getExtensionString
        \<lparr>acceptMaxCompressLevel = True, requestMaxCompressLevel = 7\<rparr>))"
    by (simp add: hp)
  have o2: "Offer_init False 0 = Inr \<lparr>acceptMaxCompressLevel = False, requestMaxCompressLevel = 0\<rparr>"
    by (simp add: Offer_init_def)
  from Offer_roundtrip [OF o1 m1] Offer_roundtrip [OF o2 refl]
  show ?thesis by simp
qed

end
